theory Spec2Isabelle
  imports Complex_Main "HOL-Library.Log_Nat"
begin

section \<open>JavaScript numbers\<close>

text \<open>
  Every balance and amount of \<^verbatim>\<open>src/index.ts\<close> is a JavaScript \<^verbatim>\<open>number\<close>, an IEEE-754
  binary64 value. A finite double is a rational, so \<open>number\<close> is \<^typ>\<open>rat\<close>, and every
  operation of the source that produces a number rounds the exact result to the nearest
  double, ties to the even significand (\<open>fl\<close>). The rounding keeps 53 significant bits:
  \<open>binade x\<close> is the exponent \<open>e\<close> with \<open>2\<^sup>e \<le> x < 2\<^sup>e\<^sup>+\<^sup>1\<close>, and the significand is
  \<open>x / 2\<^sup>e\<^sup>-\<^sup>5\<^sup>2\<close> rounded to an integer. Overflow to infinity (from \<open>2\<^sup>1\<^sup>0\<^sup>2\<^sup>4\<close>) and the
  subnormal range (below \<open>2\<^sup>-\<^sup>1\<^sup>0\<^sup>2\<^sup>2\<close>) are not modelled: the program's quantities are 64-bit
  on-chain amounts, their products with \<^verbatim>\<open>0.8\<close> and their quotients by \<^verbatim>\<open>1e9\<close> or
  \<^verbatim>\<open>1e6\<close>, all far inside the normal range.
\<close>

type_synonym number = rat

definition round_half_even :: "rat \<Rightarrow> int" where
  "round_half_even y =
     (let f = \<lfloor>y\<rfloor>; r = y - of_int f
      in if 1 / 2 < r \<or> (r = 1 / 2 \<and> odd f) then f + 1 else f)"

definition binade :: "rat \<Rightarrow> int" where
  "binade x =
     (if 1 \<le> x then bitlen \<lfloor>x\<rfloor> - 1
      else let k = bitlen \<lfloor>1 / x\<rfloor> - 1
           in if x * 2 ^ nat k = 1 then - k else - k - 1)"

definition fl_pos :: "rat \<Rightarrow> rat" where
  "fl_pos x = (let t = binade x - 52 in of_int (round_half_even (x / 2 powi t)) * 2 powi t)"

definition fl :: "rat \<Rightarrow> number" where
  "fl x = (if x = 0 then 0 else if x < 0 then - fl_pos (- x) else fl_pos x)"

text \<open>The operators the source uses: \<^verbatim>\<open>-\<close>, \<^verbatim>\<open>*\<close>, \<^verbatim>\<open>/\<close> (only by the nonzero constants
  \<^verbatim>\<open>1e9\<close> and \<^verbatim>\<open>1e6\<close>), \<^verbatim>\<open>Math.floor\<close>, \<^verbatim>\<open>Number(bigint)\<close>, and \<^verbatim>\<open>parseInt(s, 10)\<close>
  on the decimal string of an unsigned 64-bit amount, given here as the amount it spells.
  The literal \<^verbatim>\<open>0.8\<close> is the double nearest to 4/5.\<close>

definition js_sub :: "number \<Rightarrow> number \<Rightarrow> number" where
  "js_sub x y = fl (x - y)"

definition js_mul :: "number \<Rightarrow> number \<Rightarrow> number" where
  "js_mul x y = fl (x * y)"

definition js_div :: "number \<Rightarrow> number \<Rightarrow> number" where
  "js_div x y = fl (x / y)"

definition Math_floor :: "number \<Rightarrow> number" where
  "Math_floor x = of_int \<lfloor>x\<rfloor>"

definition Number_of_bigint :: "int \<Rightarrow> number" where
  "Number_of_bigint a = fl (of_int a)"

definition parseInt :: "nat \<Rightarrow> number" where
  "parseInt a = fl (of_nat a)"

definition c0_8 :: number where
  "c0_8 = fl (4 / 5)"

section \<open>Keys, instructions, transactions\<close>

text \<open>A public key is its base58 text, so \<^verbatim>\<open>equals\<close> is equality and \<^verbatim>\<open>toBase58\<close> the
  identity.\<close>

type_synonym pubkey = string

definition MINT_SOL :: pubkey where
  "MINT_SOL = ''So11111111111111111111111111111111111111112''"

definition MINT_USDC :: pubkey where
  "MINT_USDC = ''EPjFWdd5AufqSSqeM2qN1xzybapC8G4wEGGkZwyTDt1v''"

record Keypair =
  publicKey :: pubkey
  secretKey :: "nat list"

text \<open>The session holds two \<^verbatim>\<open>Keypair\<close> objects, \<^verbatim>\<open>info.sol.user\<close> and
  \<^verbatim>\<open>info.sol.collector\<close>, and every signer the program passes on is a reference to one of
  them. A JavaScript \<^verbatim>\<open>Set\<close> of objects compares references, so a signer is modelled as the
  reference it is: \<open>User\<close> or \<open>Collector\<close>.\<close>

datatype Party = Collector | User

datatype Instruction =
    CreateAssociatedTokenAccount pubkey pubkey pubkey pubkey
      \<comment> \<open>payer, associated token address, owner, mint\<close>
  | TokenTransfer pubkey pubkey pubkey number
      \<comment> \<open>source, destination, owner, amount\<close>
  | CloseAccount pubkey pubkey pubkey
      \<comment> \<open>account, destination, authority\<close>
  | SystemTransfer pubkey number pubkey
      \<comment> \<open>fromPubkey, lamports, toPubkey\<close>
  | SdkInstruction nat
      \<comment> \<open>an instruction built inside the routing SDK\<close>

record Transaction =
  feePayer :: pubkey
  instructions :: "Instruction list"

definition tx_add :: "Transaction \<Rightarrow> Instruction \<Rightarrow> Transaction" where
  "tx_add tx i = tx\<lparr>instructions := instructions tx @ [i]\<rparr>"

text \<open>\<^verbatim>\<open>signers.add(owner)\<close> on a \<^verbatim>\<open>Set\<close>, which keeps insertion order and ignores an
  element it already holds; \<^verbatim>\<open>signers.size\<close> is the length.\<close>

definition set_add :: "Party \<Rightarrow> Party list \<Rightarrow> Party list" where
  "set_add p signers = (if p \<in> set signers then signers else signers @ [p])"

section \<open>The chain client, the token library and the routing engine\<close>

record Error =
  name :: string
  message :: string

text \<open>The token library's account, of which the program reads \<^verbatim>\<open>amount\<close> (a \<^verbatim>\<open>bigint\<close>).\<close>

record TokenAccount =
  amount :: int

record AccountInfo =
  lamports :: number
  data :: "nat list"

text \<open>One entry of \<^verbatim>\<open>getParsedTokenAccountsByOwner(...).value\<close>: \<^verbatim>\<open>pubkey\<close>,
  \<^verbatim>\<open>account.data.parsed.info.mint\<close> and \<^verbatim>\<open>account.data.parsed.info.tokenAmount.amount\<close>, the
  last one the amount its decimal string spells.\<close>

record ParsedTokenAccount =
  pubkey :: pubkey
  parsed_mint :: pubkey
  parsed_amount :: nat

text \<open>What the RPC node answers. Reads answer from one state of the chain; a transport
  failure of a read or of a submission raises out of the command and is left out.\<close>

record Connection =
  getBalance :: "pubkey \<Rightarrow> number"
  getAccountInfo :: "pubkey \<Rightarrow> AccountInfo option"
  getParsedTokenAccountsByOwner :: "pubkey \<Rightarrow> ParsedTokenAccount list"
  sendTransaction :: "Transaction \<Rightarrow> Party list \<Rightarrow> string"

record Spl =
  getAssociatedTokenAddress :: "pubkey \<Rightarrow> pubkey \<Rightarrow> pubkey"
  getAccount :: "Connection \<Rightarrow> pubkey \<Rightarrow> Error + TokenAccount"

datatype RouteInfo = Route nat

record RouteOpts =
  inputMint :: pubkey
  outputMint :: pubkey
  inputAmount :: number
  slippage :: number
  onlyDirectRoutes :: bool

record SwapTransactions =
  setupTransaction :: "Transaction option"
  swapTransaction :: "Transaction option"
  cleanupTransaction :: "Transaction option"

record Jupiter =
  computeRoutes :: "RouteOpts \<Rightarrow> RouteInfo list"
  exchange :: "RouteInfo option \<Rightarrow> SwapTransactions"

section \<open>The session context\<close>

record 'a Parties =
  user :: 'a
  collector :: 'a

record ('a, 'b, 'c) Kinds =
  sol :: 'a
  wsol :: 'b
  usdc :: 'c

record ScriptInfo = "(Keypair Parties, pubkey Parties, pubkey Parties) Kinds" +
  balances :: "(number Parties, number Parties, number Parties) Kinds"
  connection :: Connection
  jupiter :: Jupiter

definition keypair_of :: "ScriptInfo \<Rightarrow> Party \<Rightarrow> Keypair" where
  "keypair_of info p = (case p of User \<Rightarrow> user (sol info) | Collector \<Rightarrow> collector (sol info))"

definition getTokenBalance :: "Spl \<Rightarrow> Connection \<Rightarrow> pubkey \<Rightarrow> Error + int" where
  "getTokenBalance spl conn address =
     (case getAccount spl conn address of
        Inr account \<Rightarrow> Inr (amount account)
      | Inl error \<Rightarrow>
          if name error \<noteq> ''TokenAccountNotFoundError'' \<and>
             name error \<noteq> ''TokenInvalidAccountOwnerError''
          then Inl error
          else Inr 0)"

text \<open>\<^verbatim>\<open>loadScriptInfo\<close>, after the two key-pairs are read from disk and with the routing
  engine that \<^verbatim>\<open>Jupiter.load\<close> returns. The four token lookups run under \<^verbatim>\<open>Promise.all\<close>,
  which rejects with the failure that arrives first; the model reports the first one in the
  order of the array.\<close>

definition loadScriptInfo ::
  "Spl \<Rightarrow> Connection \<Rightarrow> Jupiter \<Rightarrow> Keypair \<Rightarrow> Keypair \<Rightarrow> Error + ScriptInfo" where
  "loadScriptInfo spl conn jup userKeypair collectorKeypair =
     (let userUsdc = getAssociatedTokenAddress spl MINT_USDC (publicKey userKeypair);
          collectorUsdc = getAssociatedTokenAddress spl MINT_USDC (publicKey collectorKeypair);
          userWsol = getAssociatedTokenAddress spl MINT_SOL (publicKey userKeypair);
          collectorWsol = getAssociatedTokenAddress spl MINT_SOL (publicKey collectorKeypair);
          userBalance = getBalance conn (publicKey userKeypair);
          collectorBalance = getBalance conn (publicKey collectorKeypair)
      in case getTokenBalance spl conn userUsdc of
           Inl e \<Rightarrow> Inl e
         | Inr userUsdcBalance \<Rightarrow>
        (case getTokenBalance spl conn collectorUsdc of
           Inl e \<Rightarrow> Inl e
         | Inr collectorUsdcBalance \<Rightarrow>
        (case getTokenBalance spl conn userWsol of
           Inl e \<Rightarrow> Inl e
         | Inr userWsolBalance \<Rightarrow>
        (case getTokenBalance spl conn collectorWsol of
           Inl e \<Rightarrow> Inl e
         | Inr collectorWsolBalance \<Rightarrow>
             Inr \<lparr>sol = \<lparr>user = userKeypair, collector = collectorKeypair\<rparr>,
                  wsol = \<lparr>user = userWsol, collector = collectorWsol\<rparr>,
                  usdc = \<lparr>user = userUsdc, collector = collectorUsdc\<rparr>,
                  balances =
                    \<lparr>sol = \<lparr>user = userBalance, collector = collectorBalance\<rparr>,
                     wsol = \<lparr>user = Number_of_bigint userWsolBalance,
                             collector = Number_of_bigint collectorWsolBalance\<rparr>,
                     usdc = \<lparr>user = Number_of_bigint userUsdcBalance,
                             collector = Number_of_bigint collectorUsdcBalance\<rparr>\<rparr>,
                  connection = conn,
                  jupiter = jup\<rparr>))))"

section \<open>The commands\<close>

text \<open>A command is run for what it does: the lines it prints, the requests it makes to the
  routing engine, the transactions it submits and confirms, in order. A printed line is the
  list of the pieces of its template; a number inside a template stays a number, its
  rendering as text is not modelled. Each command also returns the session context as it
  leaves it.\<close>

datatype fragment = Text string | Num number | Obj "RouteInfo option"

datatype event =
    ConsoleLog "fragment list"
  | ComputeRoutes RouteOpts
  | Exchange "RouteInfo option"
  | SendTransaction Transaction "Party list"
  | ConfirmTransaction string

definition accountsPrint :: "ScriptInfo \<Rightarrow> event list \<times> ScriptInfo" where
  "accountsPrint info =
     (let userSol = js_div (user (sol (balances info))) 1000000000;
          userWsol = js_div (user (wsol (balances info))) 1000000000;
          userUsdc = js_div (user (usdc (balances info))) 1000000;
          collectorSol = js_div (collector (sol (balances info))) 1000000000;
          collectorWsol = js_div (collector (wsol (balances info))) 1000000000;
          collectorUsdc = js_div (collector (usdc (balances info))) 1000000
      in ([ConsoleLog
             [Text ''User SOL: '', Text (publicKey (user (sol info))),
              Text ''    balance: '', Num userSol,
              Text ''\<newline>User wSOL: '', Text (user (wsol info)),
              Text ''    balance: '', Num userWsol,
              Text ''\<newline>User USDC: '', Text (user (usdc info)),
              Text ''    balance: '', Num userUsdc,
              Text ''\<newline>Collector SOL: '', Text (publicKey (collector (sol info))),
              Text ''    balance: '', Num collectorSol,
              Text ''\<newline>Collector wSOL: '', Text (collector (wsol info)),
              Text ''    balance: '', Num collectorWsol,
              Text ''\<newline>Collector USDC: '', Text (collector (usdc info)),
              Text ''    balance: '', Num collectorUsdc,
              Text ''\<newline>For creating accounts top up user SOL address: '',
              Text (publicKey (user (sol info)))]],
          info))"

text \<open>The two nested loops of \<^verbatim>\<open>accountsCreate\<close>, over the (owner, mint) pairs in the order
  the loops visit them.\<close>

fun createMissing ::
  "Spl \<Rightarrow> ScriptInfo \<Rightarrow> (pubkey \<times> pubkey) list \<Rightarrow> Transaction \<Rightarrow> Transaction" where
  "createMissing spl info [] tx = tx"
| "createMissing spl info ((owner, mint) # rest) tx =
     (let address = getAssociatedTokenAddress spl mint owner;
          account = getAccountInfo (connection info) address
      in createMissing spl info rest
           (if account = None
            then tx_add tx
                   (CreateAssociatedTokenAccount (publicKey (user (sol info))) address owner mint)
            else tx))"

definition accountsCreate :: "Spl \<Rightarrow> ScriptInfo \<Rightarrow> event list \<times> ScriptInfo" where
  "accountsCreate spl info =
     (let tx = createMissing spl info
                 (concat (map (\<lambda>owner. map (\<lambda>mint. (owner, mint)) [MINT_SOL, MINT_USDC])
                    [publicKey (user (sol info)), publicKey (collector (sol info))]))
                 \<lparr>feePayer = publicKey (user (sol info)), instructions = []\<rparr>
      in if length (instructions tx) = 0
         then ([ConsoleLog [Text ''Noting to create'']], info)
         else let txid = sendTransaction (connection info) tx [User]
              in ([SendTransaction tx [User],
                   ConsoleLog [Text ''send transaction: '', Text txid],
                   ConfirmTransaction txid,
                   ConsoleLog [Text ''transaction confirmed: '', Text txid]],
                  info))"

text \<open>\<^verbatim>\<open>accountsClose\<close>, with the receiver already parsed into a public key (a malformed
  \<^verbatim>\<open>--receiver\<close> raises before anything is built). The inner loop over one owner's token
  accounts carries the transaction and the signer set.\<close>

fun closeTokenAccounts ::
  "Spl \<Rightarrow> pubkey \<Rightarrow> ScriptInfo \<Rightarrow> Party \<Rightarrow> ParsedTokenAccount list \<Rightarrow>
   Transaction \<times> Party list \<Rightarrow> Transaction \<times> Party list" where
  "closeTokenAccounts spl receiver info owner [] (tx, signers) = (tx, signers)"
| "closeTokenAccounts spl receiver info owner (a # rest) (tx, signers) =
     (let mint = parsed_mint a;
          amt = parseInt (parsed_amount a);
          tx1 = (if 0 < amt \<and> mint \<noteq> MINT_SOL
                 then tx_add tx
                        (TokenTransfer (pubkey a)
                           (getAssociatedTokenAddress spl mint receiver)
                           (publicKey (keypair_of info owner)) amt)
                 else tx);
          tx2 = tx_add tx1 (CloseAccount (pubkey a) receiver (publicKey (keypair_of info owner)))
      in closeTokenAccounts spl receiver info owner rest (tx2, set_add owner signers))"

text \<open>The sweep of one owner's native balance (the second half of the loop body).\<close>

fun sweepNative ::
  "pubkey \<Rightarrow> ScriptInfo \<Rightarrow> Party \<Rightarrow> Transaction \<times> Party list \<Rightarrow> Transaction \<times> Party list" where
  "sweepNative receiver info owner (tx, signers) =
     (let balance = getBalance (connection info) (publicKey (keypair_of info owner))
      in if 0 < balance
         then let balance' =
                    (if publicKey (keypair_of info owner) = publicKey (user (sol info))
                     then js_sub balance (js_mul (of_nat (length signers)) 5000)
                     else balance)
              in (tx_add tx
                    (SystemTransfer (publicKey (keypair_of info owner)) balance' receiver),
                  set_add owner signers)
         else (tx, signers))"

definition closeOwner ::
  "Spl \<Rightarrow> pubkey \<Rightarrow> ScriptInfo \<Rightarrow> Party \<Rightarrow> Transaction \<times> Party list \<Rightarrow> Transaction \<times> Party list" where
  "closeOwner spl receiver info owner st =
     sweepNative receiver info owner
       (closeTokenAccounts spl receiver info owner
          (getParsedTokenAccountsByOwner (connection info) (publicKey (keypair_of info owner)))
          st)"

definition closeAll :: "Spl \<Rightarrow> pubkey \<Rightarrow> ScriptInfo \<Rightarrow> Transaction \<times> Party list" where
  "closeAll spl receiver info =
     fold (closeOwner spl receiver info) [Collector, User]
       (\<lparr>feePayer = publicKey (user (sol info)), instructions = []\<rparr>, [])"

definition accountsClose :: "Spl \<Rightarrow> pubkey \<Rightarrow> ScriptInfo \<Rightarrow> event list \<times> ScriptInfo" where
  "accountsClose spl receiver info =
     (case closeAll spl receiver info of
        (tx, signers) \<Rightarrow>
          if length (instructions tx) = 0
          then ([ConsoleLog [Text ''Noting to close'']], info)
          else let signersArray = signers;
                   txid = sendTransaction (connection info) tx signersArray
               in ([SendTransaction tx signersArray,
                    ConsoleLog [Text ''send transaction: '', Text txid],
                    ConfirmTransaction txid,
                    ConsoleLog [Text ''transaction confirmed: '', Text txid]],
                   info))"

text \<open>\<^verbatim>\<open>swap\<close>: the route request it builds, then the command.\<close>

definition swap_opts :: "ScriptInfo \<Rightarrow> RouteOpts" where
  "swap_opts info =
     (let opts = \<lparr>inputMint = MINT_USDC, outputMint = MINT_SOL,
                  inputAmount = user (usdc (balances info)),
                  slippage = 1, onlyDirectRoutes = True\<rparr>
      in if user (usdc (balances info)) = 0
         then opts\<lparr>inputMint := MINT_SOL, outputMint := MINT_USDC,
                   inputAmount := Math_floor (js_mul (user (sol (balances info))) c0_8)\<rparr>
         else opts)"

definition submitStep :: "ScriptInfo \<Rightarrow> string \<times> Transaction option \<Rightarrow> event list" where
  "submitStep info st =
     (case st of
        (step, None) \<Rightarrow> []
      | (step, Some tx) \<Rightarrow>
          let txid = sendTransaction (connection info) tx [User]
          in [SendTransaction tx [User],
              ConsoleLog [Text step, Text '', send transaction: '', Text txid],
              ConfirmTransaction txid,
              ConsoleLog [Text step, Text '', transaction confirmed: '', Text txid]])"

definition swap :: "ScriptInfo \<Rightarrow> event list \<times> ScriptInfo" where
  "swap info =
     (let opts = swap_opts info;
          routes = computeRoutes (jupiter info) opts;
          routeInfo = (case routes of [] \<Rightarrow> None | r # _ \<Rightarrow> Some r);
          exchanged = exchange (jupiter info) routeInfo
      in ([ComputeRoutes opts, ConsoleLog [Text ''Route:'', Obj routeInfo], Exchange routeInfo] @
          concat (map (submitStep info)
            [(''setupTransaction'', setupTransaction exchanged),
             (''swapTransaction'', swapTransaction exchanged),
             (''cleanupTransaction'', cleanupTransaction exchanged)]),
          info))"

section \<open>Sample sessions\<close>

text \<open>Concrete chain answers and sessions, on which the commands are run below.\<close>

definition sample_ata :: "pubkey \<Rightarrow> pubkey \<Rightarrow> pubkey" where
  "sample_ata mint owner = owner @ ''/'' @ mint"

definition lookup_spl :: Spl where
  "lookup_spl =
     \<lparr>getAssociatedTokenAddress = sample_ata,
      getAccount = (\<lambda>conn address.
        if address = ''held'' then Inr \<lparr>amount = 7\<rparr>
        else if address = ''absent''
          then Inl \<lparr>name = ''TokenAccountNotFoundError'', message = ''not found''\<rparr>
        else if address = ''foreign''
          then Inl \<lparr>name = ''TokenInvalidAccountOwnerError'', message = ''wrong owner''\<rparr>
        else Inl \<lparr>name = ''Error'', message = ''failed to get info about account''\<rparr>)\<rparr>"

definition sample_connection ::
  "number \<Rightarrow> number \<Rightarrow> ParsedTokenAccount list \<Rightarrow> ParsedTokenAccount list \<Rightarrow> pubkey list \<Rightarrow>
   Connection" where
  "sample_connection userBalance collectorBalance userAccounts collectorAccounts existing =
     \<lparr>getBalance = (\<lambda>k. if k = ''Alice'' then userBalance
                          else if k = ''Bob'' then collectorBalance else 0),
      getAccountInfo = (\<lambda>k. if k \<in> set existing
                              then Some \<lparr>lamports = 2039280, data = []\<rparr> else None),
      getParsedTokenAccountsByOwner = (\<lambda>k. if k = ''Alice'' then userAccounts
                                             else if k = ''Bob'' then collectorAccounts else []),
      sendTransaction = (\<lambda>tx signers. ''txid'')\<rparr>"

definition sample_jupiter :: Jupiter where
  "sample_jupiter =
     \<lparr>computeRoutes = (\<lambda>opts. [Route 0]),
      exchange = (\<lambda>r.
        \<lparr>setupTransaction = None,
         swapTransaction = Some \<lparr>feePayer = ''Alice'', instructions = [SdkInstruction 0]\<rparr>,
         cleanupTransaction = None\<rparr>)\<rparr>"

definition sample_info :: "Connection \<Rightarrow> number \<Rightarrow> number \<Rightarrow> ScriptInfo" where
  "sample_info conn userSol userUsdc =
     \<lparr>sol = \<lparr>user = \<lparr>publicKey = ''Alice'', secretKey = []\<rparr>,
             collector = \<lparr>publicKey = ''Bob'', secretKey = []\<rparr>\<rparr>,
      wsol = \<lparr>user = sample_ata MINT_SOL ''Alice'', collector = sample_ata MINT_SOL ''Bob''\<rparr>,
      usdc = \<lparr>user = sample_ata MINT_USDC ''Alice'', collector = sample_ata MINT_USDC ''Bob''\<rparr>,
      balances = \<lparr>sol = \<lparr>user = userSol, collector = 0\<rparr>,
                  wsol = \<lparr>user = 0, collector = 0\<rparr>,
                  usdc = \<lparr>user = userUsdc, collector = 0\<rparr>\<rparr>,
      connection = conn,
      jupiter = sample_jupiter\<rparr>"

text \<open>The numbers a run prints, in order.\<close>

definition shown :: "event list \<Rightarrow> number list" where
  "shown evs =
     concat (map (\<lambda>e. case e of
                        ConsoleLog fs \<Rightarrow> concat (map (\<lambda>f. case f of Num x \<Rightarrow> [x] | _ \<Rightarrow> []) fs)
                      | _ \<Rightarrow> [])
               evs)"

definition whale_spl :: Spl where
  "whale_spl =
     \<lparr>getAssociatedTokenAddress = sample_ata,
      getAccount = (\<lambda>conn address.
        if address = sample_ata MINT_USDC ''Alice'' then Inr \<lparr>amount = 9007199254740993\<rparr>
        else if address = sample_ata MINT_SOL ''Alice'' then Inr \<lparr>amount = 9007199254740992\<rparr>
        else Inl \<lparr>name = ''TokenAccountNotFoundError'', message = ''not found''\<rparr>)\<rparr>"


definition closing_info :: "number \<Rightarrow> number \<Rightarrow> ScriptInfo" where
  "closing_info userBalance collectorBalance =
     sample_info
       (sample_connection userBalance collectorBalance
          [\<lparr>pubkey = ''AliceUsdc'', parsed_mint = MINT_USDC, parsed_amount = 500\<rparr>] [] [])
       userBalance 500"

definition created_info :: "pubkey list \<Rightarrow> ScriptInfo" where
  "created_info existing = sample_info (sample_connection 0 0 [] [] existing) 0 0"

section \<open>Facts about the rounding\<close>

lemma round_half_even_of_int: "round_half_even (of_int n) = n"
  by (simp add: round_half_even_def)

lemma round_half_even_lower: "y - 1 / 2 \<le> of_int (round_half_even y)"
  unfolding round_half_even_def Let_def
  by (auto; linarith)

lemma round_half_even_upper: "of_int (round_half_even y) \<le> y + 1 / 2"
  unfolding round_half_even_def Let_def
  by (auto; linarith)

lemma round_half_even_ge: "of_int c \<le> y \<Longrightarrow> c \<le> round_half_even y"
proof -
  assume "of_int c \<le> y"
  then have "c \<le> \<lfloor>y\<rfloor>" by (simp add: le_floor_iff)
  then show ?thesis unfolding round_half_even_def Let_def by auto
qed

lemma round_half_even_le: "y \<le> of_int c \<Longrightarrow> round_half_even y \<le> c"
proof -
  assume h: "y \<le> of_int c"
  then have f: "\<lfloor>y\<rfloor> \<le> c" by (simp add: floor_le_iff)
  show ?thesis
  proof (cases "y = of_int \<lfloor>y\<rfloor>")
    case True
    then have "round_half_even y = \<lfloor>y\<rfloor>"
      by (metis round_half_even_of_int)
    with f show ?thesis by simp
  next
    case False
    then have "of_int \<lfloor>y\<rfloor> < y" using of_int_floor_le [of y] by linarith
    with h have "of_int \<lfloor>y\<rfloor> < (of_int c :: rat)" by linarith
    then have "\<lfloor>y\<rfloor> < c" by simp
    then show ?thesis unfolding round_half_even_def Let_def by auto
  qed
qed

lemma binade_bounds:
  assumes "0 < x"
  shows "2 powi binade x \<le> x \<and> x < 2 powi (binade x + 1)"
proof (cases "1 \<le> x")
  case True
  define n where "n = \<lfloor>x\<rfloor>"
  have n: "0 < n" using True by (simp add: n_def)
  have e: "binade x = bitlen n - 1" using True by (simp add: binade_def n_def)
  have b1: "1 \<le> bitlen n" using n bitlen_eq_zero_iff [of n] bitlen_nonneg [of n] by linarith
  from bitlen_bounds [OF n] have lo: "2 ^ nat (bitlen n - 1) \<le> n" and hi: "n < 2 ^ nat (bitlen n)"
    by auto
  have "(2::rat) powi (bitlen n - 1) = of_int (2 ^ nat (bitlen n - 1))"
    using b1 by (simp add: power_int_def)
  also have "\<dots> \<le> of_int n" using lo by (simp only: of_int_le_iff)
  also have "\<dots> \<le> x" by (simp add: n_def)
  finally have L: "2 powi binade x \<le> x" by (simp add: e)
  have "n + 1 \<le> 2 ^ nat (bitlen n)" using hi by simp
  then have "(of_int (n + 1) :: rat) \<le> of_int (2 ^ nat (bitlen n))" by (simp only: of_int_le_iff)
  moreover have "x < of_int (n + 1)" using floor_correct [of x] by (simp add: n_def)
  ultimately have "x < of_int (2 ^ nat (bitlen n))" by linarith
  also have "\<dots> = 2 powi (bitlen n)" using b1 by (simp add: power_int_def)
  finally have "x < 2 powi (binade x + 1)" by (simp add: e)
  with L show ?thesis by simp
next
  case False
  define y where "y = 1 / x"
  define n where "n = \<lfloor>y\<rfloor>"
  define k where "k = bitlen n - 1"
  have x1: "x < 1" using False by simp
  have y1: "1 < y" using assms x1 by (simp add: y_def)
  have n: "0 < n" using y1 by (simp add: n_def)
  have b1: "0 \<le> k" using n bitlen_eq_zero_iff [of n] bitlen_nonneg [of n] unfolding k_def by linarith
  from bitlen_bounds [OF n] have lo: "2 ^ nat k \<le> n" and hi: "n < 2 ^ nat (bitlen n)"
    by (auto simp: k_def)
  have k1: "nat (bitlen n) = Suc (nat k)" using b1 by (simp add: k_def)
  have "(of_int (2 ^ nat k) :: rat) \<le> of_int n" using lo by (simp only: of_int_le_iff)
  also have "\<dots> \<le> y" by (simp add: n_def)
  finally have ylo: "2 ^ nat k \<le> y" by simp
  have "n + 1 \<le> 2 ^ nat (bitlen n)" using hi by simp
  then have "(of_int (n + 1) :: rat) \<le> of_int (2 ^ nat (bitlen n))" by (simp only: of_int_le_iff)
  moreover have "y < of_int (n + 1)" using floor_correct [of y] by (simp add: n_def)
  ultimately have yhi: "y < 2 * 2 ^ nat k" by (simp add: k1)
  have xhi: "x * 2 ^ nat k \<le> 1" using ylo assms by (simp add: y_def field_simps)
  have xlo: "1 < x * (2 * 2 ^ nat k)" using yhi assms by (simp add: y_def field_simps)
  have pk: "(2::rat) powi (- k) = 1 / 2 ^ nat k" using b1 by (simp add: power_int_def field_simps)
  have pk1: "(2::rat) powi (- k - 1) = 1 / (2 * 2 ^ nat k)"
    using b1 by (simp add: power_int_def field_simps nat_add_distrib)
  have pk2: "(2::rat) powi (- k + 1) = 2 / 2 ^ nat k"
    using pk power_int_add [of "2::rat" "- k" 1] by simp
  show ?thesis
  proof (cases "x * 2 ^ nat k = 1")
    case True
    then have e: "binade x = - k" using False by (simp add: binade_def y_def n_def k_def Let_def)
    have "x = 1 / 2 ^ nat k" using True by (simp add: field_simps)
    then show ?thesis unfolding e pk pk2 using assms by (simp add: field_simps)
  next
    case ne: False
    then have e: "binade x = - k - 1" using False by (simp add: binade_def y_def n_def k_def Let_def)
    have "x * 2 ^ nat k < 1" using ne xhi by simp
    then have "x < 1 / 2 ^ nat k" by (simp add: field_simps)
    moreover have "1 / (2 * 2 ^ nat k) < x" using xlo by (simp add: field_simps)
    ultimately show ?thesis unfolding e pk1 using pk by simp
  qed
qed

lemma binade_unique:
  assumes "2 powi e \<le> x" and "x < 2 powi (e + 1)"
  shows "binade x = e"
proof -
  have x: "0 < x" using assms(1) zero_less_power_int [of "2::rat" e] by linarith
  from binade_bounds [OF x] have b: "2 powi binade x \<le> x" "x < 2 powi (binade x + 1)" by auto
  have "(2::rat) powi e < 2 powi (binade x + 1)" using assms(1) b(2) by linarith
  then have "e < binade x + 1"
    by (metis not_less power_int_increasing one_le_numeral)
  moreover have "(2::rat) powi binade x < 2 powi (e + 1)" using assms(2) b(1) by linarith
  then have "binade x < e + 1"
    by (metis not_less power_int_increasing one_le_numeral)
  ultimately show ?thesis by simp
qed

lemma fl_pos_ge:
  assumes "of_int k * 2 powi (binade x - 52) \<le> x"
  shows "of_int k * 2 powi (binade x - 52) \<le> fl_pos x"
proof -
  define p :: rat where "p = 2 powi (binade x - 52)"
  have p: "0 < p" by (simp add: p_def zero_less_power_int)
  have "of_int k \<le> x / p" using assms p by (simp add: p_def [symmetric] field_simps)
  then have "k \<le> round_half_even (x / p)" by (rule round_half_even_ge)
  then have "(of_int k :: rat) \<le> of_int (round_half_even (x / p))" by (simp only: of_int_le_iff)
  then have "of_int k * p \<le> of_int (round_half_even (x / p)) * p"
    using p by (simp only: mult_le_cancel_right_pos)
  then show ?thesis by (simp add: fl_pos_def Let_def p_def)
qed

lemma fl_pos_le:
  assumes "x \<le> of_int k * 2 powi (binade x - 52)"
  shows "fl_pos x \<le> of_int k * 2 powi (binade x - 52)"
proof -
  define p :: rat where "p = 2 powi (binade x - 52)"
  have p: "0 < p" by (simp add: p_def zero_less_power_int)
  have "x / p \<le> of_int k" using assms p by (simp add: p_def [symmetric] field_simps)
  then have "round_half_even (x / p) \<le> k" by (rule round_half_even_le)
  then have "(of_int (round_half_even (x / p)) :: rat) \<le> of_int k" by (simp only: of_int_le_iff)
  then have "of_int (round_half_even (x / p)) * p \<le> of_int k * p"
    using p by (simp only: mult_le_cancel_right_pos)
  then show ?thesis by (simp add: fl_pos_def Let_def p_def)
qed

lemma fl_pos_exact:
  assumes "x = of_int k * 2 powi (binade x - 52)"
  shows "fl_pos x = x"
proof -
  have "x \<le> fl_pos x" using fl_pos_ge [of k x] assms by simp
  moreover have "fl_pos x \<le> x" using fl_pos_le [of x k] assms by simp
  ultimately show ?thesis by simp
qed

lemma fl_pos_upper: "fl_pos x \<le> x + 2 powi (binade x - 53)"
proof -
  define p :: rat where "p = 2 powi (binade x - 52)"
  have p: "0 < p" by (simp add: p_def zero_less_power_int)
  have "of_int (round_half_even (x / p)) \<le> x / p + 1 / 2" by (rule round_half_even_upper)
  then have "of_int (round_half_even (x / p)) * p \<le> (x / p + 1 / 2) * p"
    using p by (simp only: mult_le_cancel_right_pos)
  also have "\<dots> = x + p / 2" using p by (simp add: field_simps)
  also have "p / 2 = 2 powi (binade x - 53)"
    using power_int_diff [of "2::rat" "binade x - 52" 1] by (simp add: p_def)
  finally show ?thesis by (simp add: fl_pos_def Let_def p_def)
qed

lemma fl_pos_lower: "x - 2 powi (binade x - 53) \<le> fl_pos x"
proof -
  define p :: rat where "p = 2 powi (binade x - 52)"
  have p: "0 < p" by (simp add: p_def zero_less_power_int)
  have h: "p / 2 = 2 powi (binade x - 53)"
    using power_int_diff [of "2::rat" "binade x - 52" 1] by (simp add: p_def)
  have "x - p / 2 = (x / p - 1 / 2) * p" using p by (simp add: field_simps)
  also have "x / p - 1 / 2 \<le> of_int (round_half_even (x / p))" by (rule round_half_even_lower)
  then have "(x / p - 1 / 2) * p \<le> of_int (round_half_even (x / p)) * p"
    using p by (simp only: mult_le_cancel_right_pos)
  finally have "x - p / 2 \<le> fl_pos x" by (simp add: fl_pos_def Let_def p_def)
  then show ?thesis by (simp only: h)
qed

lemma fl_pos_positive:
  assumes "0 < x"
  shows "0 < fl_pos x"
proof -
  have "(2::rat) powi (binade x - 53) < 2 powi binade x"
    by (rule power_int_strict_increasing) simp_all
  also have "\<dots> \<le> x" using binade_bounds [OF assms] by simp
  finally have "0 < x - 2 powi (binade x - 53)" by simp
  with fl_pos_lower [of x] show ?thesis by linarith
qed

lemma fl_pos_of_int:
  assumes "0 < n" and "n \<le> 2 ^ 53"
  shows "fl_pos (of_int n) = of_int n"
proof (cases "n = 2 ^ 53")
  case True
  have "binade (of_int n) = 53"
    by (rule binade_unique) (simp_all add: True)
  then have "(of_int n :: rat) = of_int (2 ^ 52) * 2 powi (binade (of_int n) - 52)"
    by (simp add: True)
  then show ?thesis by (rule fl_pos_exact)
next
  case False
  define e where "e = binade (of_int n)"
  have x: "(0::rat) < of_int n" using assms(1) by simp
  from binade_bounds [OF x] have lo: "2 powi e \<le> (of_int n :: rat)" by (simp add: e_def)
  have "(of_int n :: rat) < of_int (2 ^ 53)" using assms(2) False by simp
  then have "(2::rat) powi e < 2 powi 53" using lo by simp
  then have e: "e < 53" by (metis not_less power_int_increasing one_le_numeral)
  have "(2::rat) powi (e - 52) = 1 / 2 ^ nat (52 - e)"
    using e power_int_minus [of "2::rat" "52 - e"] by (simp add: power_int_def field_simps)
  then have "(of_int n :: rat) = of_int (n * 2 ^ nat (52 - e)) * 2 powi (e - 52)"
    by simp
  then show ?thesis unfolding e_def by (rule fl_pos_exact)
qed

lemma fl_of_int:
  assumes "\<bar>n\<bar> \<le> 2 ^ 53"
  shows "fl (of_int n) = of_int n"
proof -
  consider "n = 0" | "0 < n" | "n < 0" by linarith
  then show ?thesis
  proof cases
    case 1 then show ?thesis by (simp add: fl_def)
  next
    case 2 then show ?thesis using assms fl_pos_of_int [of n] by (simp add: fl_def)
  next
    case 3 then show ?thesis using assms fl_pos_of_int [of "- n"] by (simp add: fl_def)
  qed
qed

lemma fl_positive_iff: "0 < fl x \<longleftrightarrow> 0 < x"
proof (cases "0 < x")
  case True
  then show ?thesis using fl_pos_positive [of x] by (simp add: fl_def)
next
  case False
  then show ?thesis using fl_pos_positive [of "- x"] by (auto simp: fl_def)
qed

lemma c0_8_value: "c0_8 = 3602879701896397 / 4503599627370496"
  unfolding c0_8_def by code_simp

lemma floor_mul_0_8:
  assumes "0 \<le> b" and "b < 2 ^ 50"
  shows "\<lfloor>fl (of_int b * c0_8)\<rfloor> = (4 * b) div 5"
proof (cases "b = 0")
  case True then show ?thesis by (simp add: fl_def)
next
  case False
  define x :: rat where "x = of_int b * c0_8"
  define Q where "Q = (4 * b) div 5"
  define e where "e = binade x"
  have b: "0 < b" using False assms(1) by simp
  have br: "(0::rat) < of_int b" using b by simp
  have bu: "(of_int b :: rat) < 2 ^ 50" using assms(2) of_int_less_iff [of b "2 ^ 50", where ?'a = rat] by simp
  have x0: "0 < x" using br by (simp add: x_def c0_8_value)
  have xeq: "x = of_int (4 * b) / 5 + of_int b / (5 * 2 ^ 52)"
    by (simp add: x_def c0_8_value field_simps)
  have xub: "x < 2 powi 50" using bu br by (simp add: x_def c0_8_value)
  from binade_bounds [OF x0] have lo: "2 powi e \<le> x" by (simp add: e_def)
  then have "(2::rat) powi e < 2 powi 50" using xub by linarith
  then have e: "e < 50" by (metis not_less power_int_increasing one_le_numeral)
  have pe: "(2::rat) powi (e - 52) = 1 / 2 ^ nat (52 - e)"
    using e power_int_minus [of "2::rat" "52 - e"] by (simp add: power_int_def field_simps)
  have Qm: "4 * b = 5 * Q + (4 * b) mod 5" by (simp add: Q_def)
  have m4: "(4 * b) mod 5 \<le> 4" "0 \<le> (4 * b) mod 5" by simp_all
  have "of_int (4 * b) = (of_int (5 * Q + (4 * b) mod 5) :: rat)" using Qm by simp
  then have q4: "of_int (4 * b) / 5 = (of_int Q :: rat) + of_int ((4 * b) mod 5) / 5"
    by (simp add: field_simps)
  have r1: "(of_int ((4 * b) mod 5) :: rat) \<le> 4" "(0::rat) \<le> of_int ((4 * b) mod 5)"
    using m4 by (simp_all only: of_int_le_iff [of _ 4, where ?'a = rat, simplified] of_int_0_le_iff)
  have Qx: "of_int Q \<le> x" using r1 br unfolding xeq q4 by simp
  have "of_int (Q * 2 ^ nat (52 - e)) * 2 powi (e - 52) \<le> fl_pos x"
    unfolding e_def by (rule fl_pos_ge) (use Qx pe in \<open>simp add: e_def\<close>)
  then have L: "of_int Q \<le> fl_pos x" using pe by simp
  have "(2::rat) powi (e - 53) \<le> 2 powi (- 4)"
    by (rule power_int_increasing) (use e in simp_all)
  then have u: "(2::rat) powi (e - 53) \<le> 1 / 16" by (simp add: power_int_minus)
  have "of_int b / (5 * 2 ^ 52) < (1 / 20 :: rat)" using bu by (simp add: field_simps)
  then have "x < of_int Q + 4 / 5 + 1 / 20" using r1 unfolding xeq q4 by simp
  with fl_pos_upper [of x] u have U: "fl_pos x < of_int Q + 1" by (simp add: e_def)
  have "\<lfloor>fl_pos x\<rfloor> = Q" using L U by (simp add: floor_unique)
  moreover have "fl x = fl_pos x" using x0 by (simp add: fl_def)
  ultimately show ?thesis by (simp add: x_def Q_def)
qed

lemma fl_error: "\<bar>fl x - x\<bar> \<le> \<bar>x\<bar> / 2 ^ 53"
proof -
  have pos: "\<bar>fl_pos y - y\<bar> \<le> y / 2 ^ 53" if "0 < y" for y
  proof -
    have "(2::rat) powi (binade y - 53) = 2 powi binade y / 2 ^ 53"
      using power_int_diff [of "2::rat" "binade y" 53] by simp
    also have "\<dots> \<le> y / 2 ^ 53" using binade_bounds [OF that] by (simp add: divide_right_mono)
    finally have "(2::rat) powi (binade y - 53) \<le> y / 2 ^ 53" .
    with fl_pos_upper [of y] fl_pos_lower [of y] show ?thesis by linarith
  qed
  consider "x = 0" | "0 < x" | "x < 0" by linarith
  then show ?thesis
  proof cases
    case 1 then show ?thesis by (simp add: fl_def)
  next
    case 2 then show ?thesis using pos [of x] by (simp add: fl_def)
  next
    case 3 then show ?thesis using pos [of "- x"] by (simp add: fl_def)
  qed
qed

lemma floor_four_fifths: "\<lfloor>4 / 5 * (of_int b :: rat)\<rfloor> = (4 * b) div 5"
proof -
  have "4 / 5 * (of_int b :: rat) = of_int (4 * b) / of_int 5" by simp
  then show ?thesis by (simp only: floor_divide_of_int_eq)
qed

section \<open>The token-balance lookup\<close>

text \<open>C6: the token-balance lookup returns the account's amount when the account is read;
  when the read fails with the name \<^verbatim>\<open>TokenAccountNotFoundError\<close> or
  \<^verbatim>\<open>TokenInvalidAccountOwnerError\<close> it returns zero, the failure is not surfaced; any
  other failure is raised again unchanged.\<close>

theorem getTokenBalance_lookup:
  "(getAccount spl conn address = Inr account \<longrightarrow>
      getTokenBalance spl conn address = Inr (amount account)) \<and>
   (getAccount spl conn address = Inl e \<and>
      (name e = ''TokenAccountNotFoundError'' \<or> name e = ''TokenInvalidAccountOwnerError'') \<longrightarrow>
      getTokenBalance spl conn address = Inr 0) \<and>
   (getAccount spl conn address = Inl e \<and>
      name e \<noteq> ''TokenAccountNotFoundError'' \<and> name e \<noteq> ''TokenInvalidAccountOwnerError'' \<longrightarrow>
      getTokenBalance spl conn address = Inl e)"
  by (simp add: getTokenBalance_def)

theorem getTokenBalance_lookup_witness:
  "getTokenBalance lookup_spl (sample_connection 0 0 [] [] []) ''held'' = Inr 7 \<and>
   getTokenBalance lookup_spl (sample_connection 0 0 [] [] []) ''absent'' = Inr 0 \<and>
   getTokenBalance lookup_spl (sample_connection 0 0 [] [] []) ''foreign'' = Inr 0 \<and>
   getTokenBalance lookup_spl (sample_connection 0 0 [] [] []) ''elsewhere'' =
     Inl \<lparr>name = ''Error'', message = ''failed to get info about account''\<rparr>"
  using
    getTokenBalance_lookup [of lookup_spl "sample_connection 0 0 [] [] []" "''held''"
      "\<lparr>amount = 7\<rparr>"]
    getTokenBalance_lookup [of lookup_spl "sample_connection 0 0 [] [] []" "''absent''" _
      "\<lparr>name = ''TokenAccountNotFoundError'', message = ''not found''\<rparr>"]
    getTokenBalance_lookup [of lookup_spl "sample_connection 0 0 [] [] []" "''foreign''" _
      "\<lparr>name = ''TokenInvalidAccountOwnerError'', message = ''wrong owner''\<rparr>"]
    getTokenBalance_lookup [of lookup_spl "sample_connection 0 0 [] [] []" "''elsewhere''" _
      "\<lparr>name = ''Error'', message = ''failed to get info about account''\<rparr>"]
  by (simp add: lookup_spl_def)

section \<open>The session snapshot\<close>

lemma getTokenBalance_whale:
  "getTokenBalance whale_spl conn (sample_ata MINT_USDC ''Alice'') = Inr 9007199254740993"
  "getTokenBalance whale_spl conn (sample_ata MINT_SOL ''Alice'') = Inr 9007199254740992"
  "getTokenBalance whale_spl conn (sample_ata MINT_USDC ''Bob'') = Inr 0"
  "getTokenBalance whale_spl conn (sample_ata MINT_SOL ''Bob'') = Inr 0"
  by (simp_all add: getTokenBalance_def whale_spl_def sample_ata_def MINT_SOL_def MINT_USDC_def)

text \<open>C10: each token balance of the session snapshot is the amount the lookup returned,
  converted to a double by \<^verbatim>\<open>Number\<close>. The conversion is exact for every amount of
  magnitude at most \<open>2\<^sup>5\<^sup>3\<close>, and some amount above \<open>2\<^sup>5\<^sup>3\<close> is stored as a different
  number.\<close>

theorem snapshot_token_balances:
  assumes "loadScriptInfo spl conn jup u c = Inr info"
  shows "(\<exists>uu cu uw cw.
      getTokenBalance spl conn (getAssociatedTokenAddress spl MINT_USDC (publicKey u)) = Inr uu \<and>
      getTokenBalance spl conn (getAssociatedTokenAddress spl MINT_USDC (publicKey c)) = Inr cu \<and>
      getTokenBalance spl conn (getAssociatedTokenAddress spl MINT_SOL (publicKey u)) = Inr uw \<and>
      getTokenBalance spl conn (getAssociatedTokenAddress spl MINT_SOL (publicKey c)) = Inr cw \<and>
      user (usdc (balances info)) = Number_of_bigint uu \<and>
      collector (usdc (balances info)) = Number_of_bigint cu \<and>
      user (wsol (balances info)) = Number_of_bigint uw \<and>
      collector (wsol (balances info)) = Number_of_bigint cw) \<and>
    (\<forall>a. \<bar>a\<bar> \<le> 2 ^ 53 \<longrightarrow> Number_of_bigint a = of_int a) \<and>
    (\<exists>a. 2 ^ 53 < a \<and> Number_of_bigint a \<noteq> of_int a)"
proof -
  have "Number_of_bigint 9007199254740993 = 9007199254740992"
    unfolding Number_of_bigint_def by code_simp
  then have "(2::int) ^ 53 < 9007199254740993 \<and>
             Number_of_bigint 9007199254740993 \<noteq> of_int 9007199254740993"
    by simp
  then have lost: "\<exists>a. 2 ^ 53 < a \<and> Number_of_bigint a \<noteq> of_int a" by blast
  have exact: "\<forall>a. \<bar>a\<bar> \<le> 2 ^ 53 \<longrightarrow> Number_of_bigint a = of_int a"
    by (simp add: Number_of_bigint_def fl_of_int)
  from assms have "\<exists>uu cu uw cw.
      getTokenBalance spl conn (getAssociatedTokenAddress spl MINT_USDC (publicKey u)) = Inr uu \<and>
      getTokenBalance spl conn (getAssociatedTokenAddress spl MINT_USDC (publicKey c)) = Inr cu \<and>
      getTokenBalance spl conn (getAssociatedTokenAddress spl MINT_SOL (publicKey u)) = Inr uw \<and>
      getTokenBalance spl conn (getAssociatedTokenAddress spl MINT_SOL (publicKey c)) = Inr cw \<and>
      user (usdc (balances info)) = Number_of_bigint uu \<and>
      collector (usdc (balances info)) = Number_of_bigint cu \<and>
      user (wsol (balances info)) = Number_of_bigint uw \<and>
      collector (wsol (balances info)) = Number_of_bigint cw"
    unfolding loadScriptInfo_def Let_def by (auto split: sum.splits)
  with exact lost show ?thesis by blast
qed

theorem snapshot_token_balances_witness:
  "\<exists>info.
     loadScriptInfo whale_spl (sample_connection 0 0 [] [] []) sample_jupiter
       \<lparr>publicKey = ''Alice'', secretKey = []\<rparr> \<lparr>publicKey = ''Bob'', secretKey = []\<rparr> = Inr info \<and>
     user (usdc (balances info)) = 9007199254740992 \<and>
     user (wsol (balances info)) = 9007199254740992 \<and>
     collector (usdc (balances info)) = 0 \<and>
     collector (wsol (balances info)) = 0"
proof -
  let ?load = "loadScriptInfo whale_spl (sample_connection 0 0 [] [] []) sample_jupiter
       \<lparr>publicKey = ''Alice'', secretKey = []\<rparr> \<lparr>publicKey = ''Bob'', secretKey = []\<rparr>"
  have "\<exists>info. ?load = Inr info"
    by (simp add: loadScriptInfo_def Let_def getTokenBalance_whale
        whale_spl_def [THEN arg_cong, of getAssociatedTokenAddress])
  then obtain info where h: "?load = Inr info" ..
  have n1: "Number_of_bigint 9007199254740993 = 9007199254740992"
    unfolding Number_of_bigint_def by code_simp
  have n2: "Number_of_bigint 9007199254740992 = 9007199254740992"
    unfolding Number_of_bigint_def by code_simp
  have n3: "Number_of_bigint 0 = 0"
    by (simp add: Number_of_bigint_def fl_def)
  have ata: "getAssociatedTokenAddress whale_spl = sample_ata" by (simp add: whale_spl_def)
  from snapshot_token_balances [OF h]
  have "user (usdc (balances info)) = 9007199254740992 \<and>
        user (wsol (balances info)) = 9007199254740992 \<and>
        collector (usdc (balances info)) = 0 \<and>
        collector (wsol (balances info)) = 0"
    by (auto simp: ata getTokenBalance_whale n1 n2 n3)
  with h show ?thesis by blast
qed

section \<open>Printing the balances\<close>

text \<open>C9: \<^verbatim>\<open>accounts-print\<close> prints one message in which each native and wrapped-native
  balance is the raw balance divided by \<^verbatim>\<open>1e9\<close> and each stable-token balance the raw
  balance divided by \<^verbatim>\<open>1e6\<close>, and it leaves the session context as it was. The division
  is the double one: the printed number is the quotient up to a relative error of
  \<open>2\<^sup>-\<^sup>5\<^sup>3\<close>.\<close>

theorem accountsPrint_scaling:
  "accountsPrint info =
     ([ConsoleLog
         [Text ''User SOL: '', Text (publicKey (user (sol info))),
          Text ''    balance: '', Num (js_div (user (sol (balances info))) (10 ^ 9)),
          Text ''\<newline>User wSOL: '', Text (user (wsol info)),
          Text ''    balance: '', Num (js_div (user (wsol (balances info))) (10 ^ 9)),
          Text ''\<newline>User USDC: '', Text (user (usdc info)),
          Text ''    balance: '', Num (js_div (user (usdc (balances info))) (10 ^ 6)),
          Text ''\<newline>Collector SOL: '', Text (publicKey (collector (sol info))),
          Text ''    balance: '', Num (js_div (collector (sol (balances info))) (10 ^ 9)),
          Text ''\<newline>Collector wSOL: '', Text (collector (wsol info)),
          Text ''    balance: '', Num (js_div (collector (wsol (balances info))) (10 ^ 9)),
          Text ''\<newline>Collector USDC: '', Text (collector (usdc info)),
          Text ''    balance: '', Num (js_div (collector (usdc (balances info))) (10 ^ 6)),
          Text ''\<newline>For creating accounts top up user SOL address: '',
          Text (publicKey (user (sol info)))]],
      info) \<and>
   (\<forall>b d. \<bar>js_div b d - b / d\<bar> \<le> \<bar>b / d\<bar> / 2 ^ 53)"
proof -
  have "\<forall>b d. \<bar>js_div b d - b / d\<bar> \<le> \<bar>b / d\<bar> / 2 ^ 53"
    unfolding js_div_def by (intro allI) (rule fl_error)
  then show ?thesis by (simp only: accountsPrint_def Let_def) simp
qed

theorem accountsPrint_scaling_witness:
  "shown (fst (accountsPrint (sample_info (sample_connection 0 0 [] [] []) 1500000000 2500000))) =
     [3 / 2, 0, 5 / 2, 0, 0, 0] \<and>
   snd (accountsPrint (sample_info (sample_connection 0 0 [] [] []) 1500000000 2500000)) =
     sample_info (sample_connection 0 0 [] [] []) 1500000000 2500000"
proof -
  have d1: "js_div 1500000000 1000000000 = 3 / 2" unfolding js_div_def by code_simp
  have d2: "js_div 2500000 1000000 = 5 / 2" unfolding js_div_def by code_simp
  have d0: "js_div 0 d = 0" for d by (simp add: js_div_def fl_def)
  show ?thesis
    using accountsPrint_scaling [of "sample_info (sample_connection 0 0 [] [] []) 1500000000 2500000"]
    by (simp add: shown_def sample_info_def d0 d1 d2)
qed

section \<open>The swap request\<close>

lemma swap_opts_native:
  "user (usdc (balances info)) = 0 \<Longrightarrow>
   swap_opts info = \<lparr>inputMint = MINT_SOL, outputMint = MINT_USDC,
     inputAmount = Math_floor (js_mul (user (sol (balances info))) c0_8),
     slippage = 1, onlyDirectRoutes = True\<rparr>"
  by (simp add: swap_opts_def)

lemma swap_opts_stable:
  "user (usdc (balances info)) \<noteq> 0 \<Longrightarrow>
   swap_opts info = \<lparr>inputMint = MINT_USDC, outputMint = MINT_SOL,
     inputAmount = user (usdc (balances info)),
     slippage = 1, onlyDirectRoutes = True\<rparr>"
  by (simp add: swap_opts_def)

lemma floor_mul_0_8_exact:
  "0 \<le> b \<Longrightarrow> b < 2 ^ 50 \<Longrightarrow> Math_floor (js_mul (of_int b) c0_8) = of_int \<lfloor>4 / 5 * (of_int b :: rat)\<rfloor>"
  by (simp only: Math_floor_def js_mul_def floor_mul_0_8 floor_four_fifths)

lemma mints_differ: "MINT_SOL \<noteq> MINT_USDC"
  by (simp add: MINT_SOL_def MINT_USDC_def)

lemma floor_mul_0_8_large: "Math_floor (js_mul 2814749767106561 c0_8) = 2251799813685249"
  unfolding Math_floor_def js_mul_def c0_8_def by code_simp

lemma floor_mul_0_8_scenario: "Math_floor (js_mul 2000000000 c0_8) = 1600000000"
  unfolding Math_floor_def js_mul_def c0_8_def by code_simp

lemma swap_first_event: "\<exists>rest. fst (swap info) = ComputeRoutes (swap_opts info) # rest"
  by (simp add: swap_def Let_def)

text \<open>C2, as amended: \<^verbatim>\<open>swap\<close> selects the native-to-stable direction when the user's
  stable-token balance is zero and the stable-to-native direction otherwise. The input amount
  is \<^verbatim>\<open>Math.floor(nativeBalance * 0.8)\<close> in double arithmetic in the first case, which is
  exactly \<open>\<lfloor>0.8 \<times> nativeBalance\<rfloor>\<close> for every whole balance below \<open>2\<^sup>5\<^sup>0\<close>, and the full
  stable balance in the second.\<close>

theorem swap_direction_and_amount:
  "(user (usdc (balances info)) = 0 \<longrightarrow>
      inputMint (swap_opts info) = MINT_SOL \<and> outputMint (swap_opts info) = MINT_USDC \<and>
      inputAmount (swap_opts info) = Math_floor (js_mul (user (sol (balances info))) c0_8) \<and>
      (\<forall>b. user (sol (balances info)) = of_int b \<and> 0 \<le> b \<and> b < 2 ^ 50 \<longrightarrow>
         inputAmount (swap_opts info) = of_int \<lfloor>4 / 5 * (of_int b :: rat)\<rfloor>)) \<and>
   (user (usdc (balances info)) \<noteq> 0 \<longrightarrow>
      inputMint (swap_opts info) = MINT_USDC \<and> outputMint (swap_opts info) = MINT_SOL \<and>
      inputAmount (swap_opts info) = user (usdc (balances info)))"
  by (auto simp: swap_opts_native swap_opts_stable floor_mul_0_8_exact)

theorem swap_direction_and_amount_witness:
  "user (usdc (balances (sample_info (sample_connection 0 0 [] [] []) 2000000000 0))) = 0 \<and>
   inputMint (swap_opts (sample_info (sample_connection 0 0 [] [] []) 2000000000 0)) = MINT_SOL \<and>
   outputMint (swap_opts (sample_info (sample_connection 0 0 [] [] []) 2000000000 0)) = MINT_USDC \<and>
   inputAmount (swap_opts (sample_info (sample_connection 0 0 [] [] []) 2000000000 0)) = 1600000000 \<and>
   user (usdc (balances (sample_info (sample_connection 0 0 [] [] []) 2000000000 250))) \<noteq> 0 \<and>
   inputMint (swap_opts (sample_info (sample_connection 0 0 [] [] []) 2000000000 250)) = MINT_USDC \<and>
   outputMint (swap_opts (sample_info (sample_connection 0 0 [] [] []) 2000000000 250)) = MINT_SOL \<and>
   inputAmount (swap_opts (sample_info (sample_connection 0 0 [] [] []) 2000000000 250)) = 250"
proof -
  let ?a = "sample_info (sample_connection 0 0 [] [] []) 2000000000 0"
  let ?b = "sample_info (sample_connection 0 0 [] [] []) 2000000000 250"
  have a0: "user (usdc (balances ?a)) = 0" by (simp add: sample_info_def)
  have a1: "user (sol (balances ?a)) = of_int 2000000000 \<and> (0::int) \<le> 2000000000 \<and>
            (2000000000::int) < 2 ^ 50"
    by (simp add: sample_info_def)
  have b0: "user (usdc (balances ?b)) \<noteq> 0" by (simp add: sample_info_def)
  have b1: "user (usdc (balances ?b)) = 250" by (simp add: sample_info_def)
  have fl: "of_int \<lfloor>4 / 5 * (of_int 2000000000 :: rat)\<rfloor> = (1600000000 :: rat)" by simp
  from swap_direction_and_amount [of ?a] a0 a1
  have "inputMint (swap_opts ?a) = MINT_SOL \<and> outputMint (swap_opts ?a) = MINT_USDC \<and>
        inputAmount (swap_opts ?a) = of_int \<lfloor>4 / 5 * (of_int 2000000000 :: rat)\<rfloor>"
    by blast
  moreover from swap_direction_and_amount [of ?b] b0 b1
  have "inputMint (swap_opts ?b) = MINT_USDC \<and> outputMint (swap_opts ?b) = MINT_SOL \<and>
        inputAmount (swap_opts ?b) = 250"
    by simp
  ultimately show ?thesis using a0 b0 fl by simp
qed

text \<open>C2 as stated fails: with a stable balance of zero the request goes from the native
  mint to the stable mint, not from stable to native.\<close>

theorem swap_direction_counterexample:
  "user (usdc (balances (sample_info (sample_connection 0 0 [] [] []) 2000000000 0))) = 0 \<and>
   \<not> (inputMint (swap_opts (sample_info (sample_connection 0 0 [] [] []) 2000000000 0)) = MINT_USDC \<and>
      outputMint (swap_opts (sample_info (sample_connection 0 0 [] [] []) 2000000000 0)) = MINT_SOL)"
  using mints_differ by (simp add: sample_info_def swap_opts_def)

text \<open>C3, as amended: with a stable balance of zero \<^verbatim>\<open>swap\<close> requests a route from the
  native mint to the stable mint for \<^verbatim>\<open>Math.floor(nativeBalance * 0.8)\<close>, computed in double
  arithmetic, which is exactly \<open>\<lfloor>0.8 \<times> nativeBalance\<rfloor>\<close> for every whole balance below
  \<open>2\<^sup>5\<^sup>0\<close>; otherwise it requests a route from the stable mint to the native mint for the
  full stable balance. With no stable balance and 2,000,000,000 native units the request is
  native to stable for 1,600,000,000.\<close>

theorem swap_route_request:
  "(user (usdc (balances info)) = 0 \<longrightarrow>
      (\<exists>rest. fst (swap info) =
         ComputeRoutes \<lparr>inputMint = MINT_SOL, outputMint = MINT_USDC,
                        inputAmount = Math_floor (js_mul (user (sol (balances info))) c0_8),
                        slippage = 1, onlyDirectRoutes = True\<rparr> # rest) \<and>
      (\<forall>b. user (sol (balances info)) = of_int b \<and> 0 \<le> b \<and> b < 2 ^ 50 \<longrightarrow>
         Math_floor (js_mul (user (sol (balances info))) c0_8) =
           of_int \<lfloor>4 / 5 * (of_int b :: rat)\<rfloor>)) \<and>
   (user (usdc (balances info)) \<noteq> 0 \<longrightarrow>
      (\<exists>rest. fst (swap info) =
         ComputeRoutes \<lparr>inputMint = MINT_USDC, outputMint = MINT_SOL,
                        inputAmount = user (usdc (balances info)),
                        slippage = 1, onlyDirectRoutes = True\<rparr> # rest))"
  using swap_first_event [of info]
  by (auto simp: swap_opts_native swap_opts_stable floor_mul_0_8_exact)

theorem swap_route_request_witness:
  "user (usdc (balances (sample_info (sample_connection 0 0 [] [] []) 2000000000 0))) = 0 \<and>
   (\<exists>rest. fst (swap (sample_info (sample_connection 0 0 [] [] []) 2000000000 0)) =
      ComputeRoutes \<lparr>inputMint = MINT_SOL, outputMint = MINT_USDC, inputAmount = 1600000000,
                     slippage = 1, onlyDirectRoutes = True\<rparr> # rest) \<and>
   user (usdc (balances (sample_info (sample_connection 0 0 [] [] []) 2000000000 250))) \<noteq> 0 \<and>
   (\<exists>rest. fst (swap (sample_info (sample_connection 0 0 [] [] []) 2000000000 250)) =
      ComputeRoutes \<lparr>inputMint = MINT_USDC, outputMint = MINT_SOL, inputAmount = 250,
                     slippage = 1, onlyDirectRoutes = True\<rparr> # rest)"
proof -
  let ?a = "sample_info (sample_connection 0 0 [] [] []) 2000000000 0"
  let ?b = "sample_info (sample_connection 0 0 [] [] []) 2000000000 250"
  have a0: "user (usdc (balances ?a)) = 0" by (simp add: sample_info_def)
  have a1: "user (sol (balances ?a)) = of_int 2000000000 \<and> (0::int) \<le> 2000000000 \<and>
            (2000000000::int) < 2 ^ 50"
    by (simp add: sample_info_def)
  have b0: "user (usdc (balances ?b)) \<noteq> 0" by (simp add: sample_info_def)
  have b1: "user (usdc (balances ?b)) = 250" by (simp add: sample_info_def)
  have fl: "of_int \<lfloor>4 / 5 * (of_int 2000000000 :: rat)\<rfloor> = (1600000000 :: rat)" by simp
  from swap_route_request [of ?a] a0 a1
  have "Math_floor (js_mul (user (sol (balances ?a))) c0_8) =
          of_int \<lfloor>4 / 5 * (of_int 2000000000 :: rat)\<rfloor>"
    by blast
  with fl have "Math_floor (js_mul (user (sol (balances ?a))) c0_8) = 1600000000" by simp
  with swap_route_request [of ?a] a0
  have A: "\<exists>rest. fst (swap ?a) =
      ComputeRoutes \<lparr>inputMint = MINT_SOL, outputMint = MINT_USDC, inputAmount = 1600000000,
                     slippage = 1, onlyDirectRoutes = True\<rparr> # rest"
    by simp
  from swap_route_request [of ?b] b0 b1
  have B: "\<exists>rest. fst (swap ?b) =
      ComputeRoutes \<lparr>inputMint = MINT_USDC, outputMint = MINT_SOL, inputAmount = 250,
                     slippage = 1, onlyDirectRoutes = True\<rparr> # rest"
    by simp
  from a0 A b0 B show ?thesis by blast
qed

text \<open>C3 as stated fails: for a native balance of 2,814,749,767,106,561 the double product
  with \<^verbatim>\<open>0.8\<close> rounds up across an integer, and the requested amount is one more than
  \<open>\<lfloor>0.8 \<times> balance\<rfloor>\<close>.\<close>

theorem swap_route_request_counterexample:
  "user (usdc (balances (sample_info (sample_connection 0 0 [] [] []) 2814749767106561 0))) = 0 \<and>
   hd (fst (swap (sample_info (sample_connection 0 0 [] [] []) 2814749767106561 0))) =
     ComputeRoutes \<lparr>inputMint = MINT_SOL, outputMint = MINT_USDC,
                    inputAmount = 2251799813685249,
                    slippage = 1, onlyDirectRoutes = True\<rparr> \<and>
   (2251799813685249 :: rat) \<noteq> of_int \<lfloor>4 / 5 * (2814749767106561 :: rat)\<rfloor>"
proof -
  let ?c = "sample_info (sample_connection 0 0 [] [] []) 2814749767106561 0"
  have c0: "user (usdc (balances ?c)) = 0" by (simp add: sample_info_def)
  have c1: "user (sol (balances ?c)) = 2814749767106561" by (simp add: sample_info_def)
  from swap_first_event [of ?c] have "hd (fst (swap ?c)) = ComputeRoutes (swap_opts ?c)" by auto
  then have "hd (fst (swap ?c)) =
     ComputeRoutes \<lparr>inputMint = MINT_SOL, outputMint = MINT_USDC,
                    inputAmount = 2251799813685249,
                    slippage = 1, onlyDirectRoutes = True\<rparr>"
    by (simp only: swap_opts_native [OF c0] c1 floor_mul_0_8_large)
  moreover have "\<lfloor>4 / 5 * (2814749767106561 :: rat)\<rfloor> = 2251799813685248"
    using floor_four_fifths [of 2814749767106561] by simp
  then have "(2251799813685249 :: rat) \<noteq> of_int \<lfloor>4 / 5 * (2814749767106561 :: rat)\<rfloor>"
    by simp
  ultimately show ?thesis using c0 by simp
qed

section \<open>Closing the accounts\<close>

lemma set_add_idem: "set_add p (set_add p s) = set_add p s"
  by (simp add: set_add_def)

lemma distinct_set_add: "distinct s \<Longrightarrow> distinct (set_add p s)"
  by (simp add: set_add_def)

lemma parseInt_pos: "0 < parseInt a \<longleftrightarrow> a \<noteq> 0"
  by (simp add: parseInt_def fl_positive_iff)

lemma parseInt_exact: "a \<le> 2 ^ 53 \<Longrightarrow> parseInt a = of_nat a"
proof -
  assume "a \<le> 2 ^ 53"
  then have "\<bar>int a\<bar> \<le> 2 ^ 53" by (simp add: of_nat_le_iff [of a "2 ^ 53", where ?'a = int, simplified])
  then have "fl (of_int (int a)) = of_int (int a)" by (rule fl_of_int)
  then show ?thesis by (simp add: parseInt_def)
qed

lemma closeTokenAccounts_eq:
  "closeTokenAccounts spl receiver info owner accts (tx, signers) =
     (tx\<lparr>instructions := instructions tx @
          concat (map (\<lambda>a.
            (if parsed_amount a \<noteq> 0 \<and> parsed_mint a \<noteq> MINT_SOL
             then [TokenTransfer (pubkey a)
                     (getAssociatedTokenAddress spl (parsed_mint a) receiver)
                     (publicKey (keypair_of info owner)) (parseInt (parsed_amount a))]
             else []) @
            [CloseAccount (pubkey a) receiver (publicKey (keypair_of info owner))]) accts)\<rparr>,
      if accts = [] then signers else set_add owner signers)"
proof (induction accts arbitrary: tx signers)
  case Nil
  show ?case by simp
next
  case (Cons a accts)
  show ?case
    by (simp add: Cons.IH Let_def tx_add_def parseInt_pos set_add_idem)
qed

lemma distinct_closeTokenAccounts:
  "distinct (snd st) \<Longrightarrow> distinct (snd (closeTokenAccounts spl receiver info owner accts st))"
  by (cases st) (simp add: closeTokenAccounts_eq distinct_set_add)

lemma distinct_sweepNative:
  "distinct (snd st) \<Longrightarrow> distinct (snd (sweepNative receiver info owner st))"
  by (cases st) (simp add: Let_def distinct_set_add)

lemma distinct_closeOwner:
  "distinct (snd st) \<Longrightarrow> distinct (snd (closeOwner spl receiver info owner st))"
  by (simp add: closeOwner_def distinct_sweepNative distinct_closeTokenAccounts)

lemma closeAll_unfold:
  "closeAll spl receiver info =
     sweepNative receiver info User
       (closeTokenAccounts spl receiver info User
          (getParsedTokenAccountsByOwner (connection info) (publicKey (user (sol info))))
          (closeOwner spl receiver info Collector
             (\<lparr>feePayer = publicKey (user (sol info)), instructions = []\<rparr>, [])))"
  by (simp add: closeAll_def closeOwner_def keypair_of_def)

lemma distinct_closeAll: "distinct (snd (closeAll spl receiver info))"
  by (simp add: closeAll_def distinct_closeOwner)

lemma Party_UNIV: "(UNIV :: Party set) = {Collector, User}"
  using Party.exhaust by auto

lemma distinct_Party_length: "distinct (s :: Party list) \<Longrightarrow> length s \<le> 2"
proof -
  assume d: "distinct s"
  have "set s \<subseteq> {Collector, User}" using Party_UNIV by blast
  then have "card (set s) \<le> card {Collector, User}" by (intro card_mono) simp_all
  then show ?thesis using d by (simp add: distinct_card)
qed

lemma fee_deduction_exact:
  assumes "0 < b" and "b \<le> 2 ^ 53" and "n \<le> 2"
  shows "js_sub (of_int b) (js_mul (of_nat n) 5000) = of_int (b - int n * 5000)"
proof -
  have "\<bar>int n * 5000\<bar> \<le> 2 ^ 53" using assms(3) by simp
  then have "fl (of_int (int n * 5000)) = of_int (int n * 5000)" by (rule fl_of_int)
  then have m: "js_mul (of_nat n) 5000 = of_int (int n * 5000)" by (simp add: js_mul_def)
  have "\<bar>b - int n * 5000\<bar> \<le> 2 ^ 53" using assms by simp
  then have "fl (of_int (b - int n * 5000)) = of_int (b - int n * 5000)" by (rule fl_of_int)
  then show ?thesis by (simp add: js_sub_def m)
qed

lemma parseInt_numeral: "parseInt 500 = 500" "parseInt 7 = 7" "parseInt 0 = 0"
  using parseInt_exact [of 500] parseInt_exact [of 7] parseInt_exact [of 0] by simp_all

lemma closing_info_simps:
  "publicKey (user (sol (closing_info u c))) = ''Alice''"
  "publicKey (collector (sol (closing_info u c))) = ''Bob''"
  "getBalance (connection (closing_info u c)) ''Alice'' = u"
  "getBalance (connection (closing_info u c)) ''Bob'' = c"
  "getParsedTokenAccountsByOwner (connection (closing_info u c)) ''Alice'' =
     [\<lparr>pubkey = ''AliceUsdc'', parsed_mint = MINT_USDC, parsed_amount = 500\<rparr>]"
  "getParsedTokenAccountsByOwner (connection (closing_info u c)) ''Bob'' = []"
  "sendTransaction (connection (closing_info u c)) tx ks = ''txid''"
  by (simp_all add: closing_info_def sample_info_def sample_connection_def)

lemma lookup_spl_ata: "getAssociatedTokenAddress lookup_spl = sample_ata"
  by (simp add: lookup_spl_def)

lemma closing_tokens:
  "closeTokenAccounts lookup_spl ''Carol'' (closing_info u 0) User
       (getParsedTokenAccountsByOwner (connection (closing_info u 0))
          (publicKey (user (sol (closing_info u 0)))))
       (closeOwner lookup_spl ''Carol'' (closing_info u 0) Collector
          (\<lparr>feePayer = publicKey (user (sol (closing_info u 0))), instructions = []\<rparr>, [])) =
     (\<lparr>feePayer = ''Alice'',
       instructions =
         [TokenTransfer ''AliceUsdc'' (sample_ata MINT_USDC ''Carol'') ''Alice'' 500,
          CloseAccount ''AliceUsdc'' ''Carol'' ''Alice'']\<rparr>,
      [User])"
  by (simp add: closeOwner_def closeTokenAccounts_eq closing_info_simps keypair_of_def
      lookup_spl_ata parseInt_numeral mints_differ [symmetric] set_add_def)

lemma closeAll_closing_info:
  "0 < u \<Longrightarrow>
   closeAll lookup_spl ''Carol'' (closing_info u 0) =
     (\<lparr>feePayer = ''Alice'',
       instructions =
         [TokenTransfer ''AliceUsdc'' (sample_ata MINT_USDC ''Carol'') ''Alice'' 500,
          CloseAccount ''AliceUsdc'' ''Carol'' ''Alice'',
          SystemTransfer ''Alice'' (js_sub u (js_mul 1 5000)) ''Carol'']\<rparr>,
      [User])"
  by (simp only: closeAll_unfold closing_tokens)
    (simp add: closing_info_simps keypair_of_def tx_add_def set_add_def)

lemma accountsClose_closing_info:
  "0 < u \<Longrightarrow>
   fst (accountsClose lookup_spl ''Carol'' (closing_info u 0)) =
     [SendTransaction
        \<lparr>feePayer = ''Alice'',
         instructions =
           [TokenTransfer ''AliceUsdc'' (sample_ata MINT_USDC ''Carol'') ''Alice'' 500,
            CloseAccount ''AliceUsdc'' ''Carol'' ''Alice'',
            SystemTransfer ''Alice'' (js_sub u (js_mul 1 5000)) ''Carol'']\<rparr>
        [User],
      ConsoleLog [Text ''send transaction: '', Text ''txid''],
      ConfirmTransaction ''txid'',
      ConsoleLog [Text ''transaction confirmed: '', Text ''txid'']]"
  by (simp add: accountsClose_def closeAll_closing_info closing_info_simps Let_def)

lemma deduction_below_fee: "js_sub 4000 (js_mul 1 5000) = - 1000"
  unfolding js_sub_def js_mul_def by code_simp

lemma deduction_at_fee: "js_sub 5000 (js_mul 1 5000) = 0"
  unfolding js_sub_def js_mul_def by code_simp



text \<open>C4: when the user's native balance is positive, the user's sweep carries
  \<^verbatim>\<open>balance - signers.size * 5000\<close>, where the signers are those collected before this
  sweep is added (the collector's whole turn and the user's token accounts), counted without
  repetition; for a whole balance up to \<open>2\<^sup>5\<^sup>3\<close> that is the exact difference. A collector
  whose key is not the user's has the full balance swept, with no deduction.\<close>

theorem native_sweep_amount:
  "(closeTokenAccounts spl receiver info User
       (getParsedTokenAccountsByOwner (connection info) (publicKey (user (sol info))))
       (closeOwner spl receiver info Collector
          (\<lparr>feePayer = publicKey (user (sol info)), instructions = []\<rparr>, [])) = (tx, signers) \<and>
    0 < getBalance (connection info) (publicKey (user (sol info))) \<longrightarrow>
      closeAll spl receiver info =
        (tx_add tx
           (SystemTransfer (publicKey (user (sol info)))
              (js_sub (getBalance (connection info) (publicKey (user (sol info))))
                 (js_mul (of_nat (card (set signers))) 5000))
              receiver),
         set_add User signers) \<and>
      card (set signers) = length signers \<and>
      (\<forall>b. getBalance (connection info) (publicKey (user (sol info))) = of_int b \<and> b \<le> 2 ^ 53 \<longrightarrow>
         js_sub (getBalance (connection info) (publicKey (user (sol info))))
           (js_mul (of_nat (card (set signers))) 5000) =
         of_int (b - int (card (set signers)) * 5000))) \<and>
   (closeTokenAccounts spl receiver info Collector
       (getParsedTokenAccountsByOwner (connection info) (publicKey (collector (sol info)))) st =
       (tx', signers') \<and>
    publicKey (collector (sol info)) \<noteq> publicKey (user (sol info)) \<and>
    0 < getBalance (connection info) (publicKey (collector (sol info))) \<longrightarrow>
      closeOwner spl receiver info Collector st =
        (tx_add tx'
           (SystemTransfer (publicKey (collector (sol info)))
              (getBalance (connection info) (publicKey (collector (sol info))))
              receiver),
         set_add Collector signers'))"
proof (intro conjI impI)
  assume h: "closeTokenAccounts spl receiver info User
       (getParsedTokenAccountsByOwner (connection info) (publicKey (user (sol info))))
       (closeOwner spl receiver info Collector
          (\<lparr>feePayer = publicKey (user (sol info)), instructions = []\<rparr>, [])) = (tx, signers) \<and>
    0 < getBalance (connection info) (publicKey (user (sol info)))"
  have "distinct (snd (closeTokenAccounts spl receiver info User
       (getParsedTokenAccountsByOwner (connection info) (publicKey (user (sol info))))
       (closeOwner spl receiver info Collector
          (\<lparr>feePayer = publicKey (user (sol info)), instructions = []\<rparr>, []))))"
    by (intro distinct_closeTokenAccounts distinct_closeOwner) simp
  with h have d: "distinct signers" by simp
  then have c: "card (set signers) = length signers" by (rule distinct_card)
  from d have n: "length signers \<le> 2" by (rule distinct_Party_length)
  show "closeAll spl receiver info =
        (tx_add tx
           (SystemTransfer (publicKey (user (sol info)))
              (js_sub (getBalance (connection info) (publicKey (user (sol info))))
                 (js_mul (of_nat (card (set signers))) 5000))
              receiver),
         set_add User signers)"
    using h by (simp add: closeAll_unfold c keypair_of_def)
  show "card (set signers) = length signers" by (rule c)
  show "\<forall>b. getBalance (connection info) (publicKey (user (sol info))) = of_int b \<and> b \<le> 2 ^ 53 \<longrightarrow>
         js_sub (getBalance (connection info) (publicKey (user (sol info))))
           (js_mul (of_nat (card (set signers))) 5000) =
         of_int (b - int (card (set signers)) * 5000)"
  proof (intro allI impI)
    fix b
    assume b: "getBalance (connection info) (publicKey (user (sol info))) = of_int b \<and> b \<le> 2 ^ 53"
    with h have "0 < b" by simp
    with b n show "js_sub (getBalance (connection info) (publicKey (user (sol info))))
           (js_mul (of_nat (card (set signers))) 5000) =
         of_int (b - int (card (set signers)) * 5000)"
      by (simp add: c fee_deduction_exact)
  qed
next
  assume "closeTokenAccounts spl receiver info Collector
       (getParsedTokenAccountsByOwner (connection info) (publicKey (collector (sol info)))) st =
       (tx', signers') \<and>
    publicKey (collector (sol info)) \<noteq> publicKey (user (sol info)) \<and>
    0 < getBalance (connection info) (publicKey (collector (sol info)))"
  then show "closeOwner spl receiver info Collector st =
        (tx_add tx'
           (SystemTransfer (publicKey (collector (sol info)))
              (getBalance (connection info) (publicKey (collector (sol info))))
              receiver),
         set_add Collector signers')"
    by (simp add: closeOwner_def keypair_of_def)
qed

theorem native_sweep_amount_witness:
  "closeAll lookup_spl ''Carol'' (closing_info 10000 0) =
     (\<lparr>feePayer = ''Alice'',
       instructions =
         [TokenTransfer ''AliceUsdc'' (sample_ata MINT_USDC ''Carol'') ''Alice'' 500,
          CloseAccount ''AliceUsdc'' ''Carol'' ''Alice'',
          SystemTransfer ''Alice'' 5000 ''Carol'']\<rparr>,
      [User]) \<and>
   closeOwner lookup_spl ''Carol'' (closing_info 10000 7) Collector
       (\<lparr>feePayer = ''Alice'', instructions = []\<rparr>, []) =
     (\<lparr>feePayer = ''Alice'', instructions = [SystemTransfer ''Bob'' 7 ''Carol'']\<rparr>,
      [Collector])"
proof -
  let ?i = "closing_info 10000 0"
  let ?j = "closing_info 10000 7"
  have bal: "0 < getBalance (connection ?i) (publicKey (user (sol ?i)))"
    by (simp add: closing_info_simps)
  have b: "getBalance (connection ?i) (publicKey (user (sol ?i))) = of_int 10000 \<and>
           (10000::int) \<le> 2 ^ 53"
    by (simp add: closing_info_simps)
  from native_sweep_amount [of lookup_spl "''Carol''" ?i _ "[User]"] closing_tokens [of 10000] bal b
  have A: "closeAll lookup_spl ''Carol'' ?i =
     (\<lparr>feePayer = ''Alice'',
       instructions =
         [TokenTransfer ''AliceUsdc'' (sample_ata MINT_USDC ''Carol'') ''Alice'' 500,
          CloseAccount ''AliceUsdc'' ''Carol'' ''Alice'',
          SystemTransfer ''Alice'' 5000 ''Carol'']\<rparr>,
      [User])"
    by (simp add: tx_add_def set_add_def closing_info_simps)
  have t: "closeTokenAccounts lookup_spl ''Carol'' ?j Collector
       (getParsedTokenAccountsByOwner (connection ?j) (publicKey (collector (sol ?j))))
       (\<lparr>feePayer = ''Alice'', instructions = []\<rparr>, []) =
       (\<lparr>feePayer = ''Alice'', instructions = []\<rparr>, [])"
    by (simp add: closing_info_simps)
  have c: "publicKey (collector (sol ?j)) \<noteq> publicKey (user (sol ?j)) \<and>
           0 < getBalance (connection ?j) (publicKey (collector (sol ?j)))"
    by (simp add: closing_info_simps)
  from native_sweep_amount [of lookup_spl "''Carol''" ?j _ _
      "(\<lparr>feePayer = ''Alice'', instructions = []\<rparr>, [])" "\<lparr>feePayer = ''Alice'', instructions = []\<rparr>" "[]"]
    t c
  have B: "closeOwner lookup_spl ''Carol'' ?j Collector
       (\<lparr>feePayer = ''Alice'', instructions = []\<rparr>, []) =
     (\<lparr>feePayer = ''Alice'', instructions = [SystemTransfer ''Bob'' 7 ''Carol'']\<rparr>,
      [Collector])"
    by (simp add: tx_add_def set_add_def closing_info_simps)
  from A B show ?thesis by simp
qed

text \<open>C1: the claim that every appended native sweep carries a strictly positive amount
  does not hold of the code. The guard \<^verbatim>\<open>balance > 0\<close> is tested before the fee is
  deducted and nothing is tested after. A user with one token account and a native balance
  of 4000 gets a sweep instruction of \<open>4000 - 1 \<times> 5000 = -1000\<close>, and with a balance of 5000
  a sweep instruction of 0; in both runs the instruction is added and the transaction is
  handed to the chain client.\<close>

theorem accountsClose_negative_sweep:
  "0 < getBalance (connection (closing_info 4000 0)) (publicKey (user (sol (closing_info 4000 0)))) \<and>
   fst (accountsClose lookup_spl ''Carol'' (closing_info 4000 0)) =
     [SendTransaction
        \<lparr>feePayer = ''Alice'',
         instructions =
           [TokenTransfer ''AliceUsdc'' (sample_ata MINT_USDC ''Carol'') ''Alice'' 500,
            CloseAccount ''AliceUsdc'' ''Carol'' ''Alice'',
            SystemTransfer ''Alice'' (- 1000) ''Carol'']\<rparr>
        [User],
      ConsoleLog [Text ''send transaction: '', Text ''txid''],
      ConfirmTransaction ''txid'',
      ConsoleLog [Text ''transaction confirmed: '', Text ''txid'']] \<and>
   fst (accountsClose lookup_spl ''Carol'' (closing_info 5000 0)) =
     [SendTransaction
        \<lparr>feePayer = ''Alice'',
         instructions =
           [TokenTransfer ''AliceUsdc'' (sample_ata MINT_USDC ''Carol'') ''Alice'' 500,
            CloseAccount ''AliceUsdc'' ''Carol'' ''Alice'',
            SystemTransfer ''Alice'' 0 ''Carol'']\<rparr>
        [User],
      ConsoleLog [Text ''send transaction: '', Text ''txid''],
      ConfirmTransaction ''txid'',
      ConsoleLog [Text ''transaction confirmed: '', Text ''txid'']]"
  using accountsClose_closing_info [of 4000] accountsClose_closing_info [of 5000]
  by (simp add: closing_info_simps deduction_below_fee deduction_at_fee)

text \<open>C8: a transaction that \<^verbatim>\<open>accounts-close\<close> or \<^verbatim>\<open>accounts-create\<close> submits has at
  least one instruction, and the signers passed with it are pairwise different: adding a
  party that the signer set already holds leaves the set as it is.\<close>

theorem submitted_transactions:
  "(\<forall>tx ks. SendTransaction tx ks \<in> set (fst (accountsClose spl receiver info)) \<longrightarrow>
      instructions tx \<noteq> [] \<and> distinct ks) \<and>
   (\<forall>tx ks. SendTransaction tx ks \<in> set (fst (accountsCreate spl info)) \<longrightarrow>
      instructions tx \<noteq> [] \<and> distinct ks) \<and>
   (\<forall>p signers. set_add p (set_add p signers) = set_add p signers \<and>
      (distinct signers \<longrightarrow> distinct (set_add p signers)))"
proof (intro conjI allI impI)
  fix tx ks
  assume h: "SendTransaction tx ks \<in> set (fst (accountsClose spl receiver info))"
  obtain tx' signers' where c: "closeAll spl receiver info = (tx', signers')"
    by (cases "closeAll spl receiver info")
  have d: "distinct signers'" using distinct_closeAll [of spl receiver info] c by simp
  from h c have "tx = tx' \<and> ks = signers' \<and> instructions tx' \<noteq> []"
    by (auto simp: accountsClose_def Let_def split: if_splits)
  with d show "instructions tx \<noteq> []" and "distinct ks" by simp_all
next
  fix tx ks
  assume h: "SendTransaction tx ks \<in> set (fst (accountsCreate spl info))"
  then have "instructions tx \<noteq> [] \<and> ks = [User]"
    by (auto simp: accountsCreate_def Let_def split: if_splits)
  then show "instructions tx \<noteq> []" and "distinct ks" by simp_all
next
  fix p signers
  show "set_add p (set_add p signers) = set_add p signers" by (rule set_add_idem)
  assume "distinct signers"
  then show "distinct (set_add p signers)" by (rule distinct_set_add)
qed

theorem submitted_transactions_witness:
  "SendTransaction
     \<lparr>feePayer = ''Alice'',
      instructions =
        [TokenTransfer ''AliceUsdc'' (sample_ata MINT_USDC ''Carol'') ''Alice'' 500,
         CloseAccount ''AliceUsdc'' ''Carol'' ''Alice'',
         SystemTransfer ''Alice'' (js_sub 10000 (js_mul 1 5000)) ''Carol'']\<rparr>
     [User]
     \<in> set (fst (accountsClose lookup_spl ''Carol'' (closing_info 10000 0))) \<and>
   distinct [User] \<and>
   set_add User (set_add User [Collector]) = [Collector, User] \<and>
   fst (accountsClose lookup_spl ''Carol'' (sample_info (sample_connection 0 0 [] [] []) 0 0)) =
     [ConsoleLog [Text ''Noting to close'']]"
proof -
  let ?tx = "\<lparr>feePayer = ''Alice'',
      instructions =
        [TokenTransfer ''AliceUsdc'' (sample_ata MINT_USDC ''Carol'') ''Alice'' 500,
         CloseAccount ''AliceUsdc'' ''Carol'' ''Alice'',
         SystemTransfer ''Alice'' (js_sub 10000 (js_mul 1 5000)) ''Carol'']\<rparr>"
  have m: "SendTransaction ?tx [User]
      \<in> set (fst (accountsClose lookup_spl ''Carol'' (closing_info 10000 0)))"
    by (simp add: accountsClose_closing_info)
  have d: "distinct [Collector]" by simp
  from submitted_transactions [of lookup_spl "''Carol''" "closing_info 10000 0"] m d
  have "instructions ?tx \<noteq> [] \<and> distinct [User] \<and>
        set_add User (set_add User [Collector]) = set_add User [Collector] \<and>
        distinct (set_add User [Collector])"
    by blast
  moreover have "set_add User [Collector] = [Collector, User]" by (simp add: set_add_def)
  moreover have "fst (accountsClose lookup_spl ''Carol''
      (sample_info (sample_connection 0 0 [] [] []) 0 0)) = [ConsoleLog [Text ''Noting to close'']]"
    by (simp add: accountsClose_def closeAll_def closeOwner_def keypair_of_def sample_info_def
        sample_connection_def)
  ultimately show ?thesis using m by simp
qed

section \<open>Creating the accounts\<close>

lemma createMissing_eq:
  "createMissing spl info pairs tx =
     tx\<lparr>instructions := instructions tx @
       map (\<lambda>(owner, mint).
              CreateAssociatedTokenAccount (publicKey (user (sol info)))
                (getAssociatedTokenAddress spl mint owner) owner mint)
         (filter (\<lambda>(owner, mint).
              getAccountInfo (connection info) (getAssociatedTokenAddress spl mint owner) = None)
            pairs)\<rparr>"
proof (induction pairs arbitrary: tx)
  case Nil
  show ?case by simp
next
  case (Cons p pairs)
  show ?case by (cases p) (simp add: Cons.IH Let_def tx_add_def)
qed

lemma created_info_simps:
  "publicKey (user (sol (created_info existing))) = ''Alice''"
  "publicKey (collector (sol (created_info existing))) = ''Bob''"
  "getAccountInfo (connection (created_info existing)) k =
     (if k \<in> set existing then Some \<lparr>lamports = 2039280, data = []\<rparr> else None)"
  "sendTransaction (connection (created_info existing)) tx ks = ''txid''"
  by (simp_all add: created_info_def sample_info_def sample_connection_def)

text \<open>C7: when all four associated accounts exist, \<^verbatim>\<open>accounts-create\<close> builds no
  instruction, submits nothing and prints one line, which the source spells
  \<^verbatim>\<open>Noting to create\<close>. Otherwise the transaction holds exactly one creation instruction
  for each (owner, mint) pair whose associated account is absent, in the order of the loops
  and with the user as payer, and it is submitted with the user as the only signer.\<close>

theorem accountsCreate_missing:
  "(filter (\<lambda>(owner, mint).
        getAccountInfo (connection info) (getAssociatedTokenAddress spl mint owner) = None)
      [(publicKey (user (sol info)), MINT_SOL), (publicKey (user (sol info)), MINT_USDC),
       (publicKey (collector (sol info)), MINT_SOL),
       (publicKey (collector (sol info)), MINT_USDC)] = [] \<longrightarrow>
      accountsCreate spl info = ([ConsoleLog [Text ''Noting to create'']], info)) \<and>
   (filter (\<lambda>(owner, mint).
        getAccountInfo (connection info) (getAssociatedTokenAddress spl mint owner) = None)
      [(publicKey (user (sol info)), MINT_SOL), (publicKey (user (sol info)), MINT_USDC),
       (publicKey (collector (sol info)), MINT_SOL),
       (publicKey (collector (sol info)), MINT_USDC)] = missing \<and> missing \<noteq> [] \<and>
    tx = \<lparr>feePayer = publicKey (user (sol info)),
          instructions =
            map (\<lambda>(owner, mint).
                   CreateAssociatedTokenAccount (publicKey (user (sol info)))
                     (getAssociatedTokenAddress spl mint owner) owner mint) missing\<rparr> \<longrightarrow>
      accountsCreate spl info =
        ([SendTransaction tx [User],
          ConsoleLog [Text ''send transaction: '', Text (sendTransaction (connection info) tx [User])],
          ConfirmTransaction (sendTransaction (connection info) tx [User]),
          ConsoleLog [Text ''transaction confirmed: '',
                      Text (sendTransaction (connection info) tx [User])]],
         info))"
proof (intro conjI impI)
  assume "filter (\<lambda>(owner, mint).
        getAccountInfo (connection info) (getAssociatedTokenAddress spl mint owner) = None)
      [(publicKey (user (sol info)), MINT_SOL), (publicKey (user (sol info)), MINT_USDC),
       (publicKey (collector (sol info)), MINT_SOL),
       (publicKey (collector (sol info)), MINT_USDC)] = []"
  then show "accountsCreate spl info = ([ConsoleLog [Text ''Noting to create'']], info)"
    unfolding accountsCreate_def createMissing_eq by (simp del: filter.simps)
next
  assume h: "filter (\<lambda>(owner, mint).
        getAccountInfo (connection info) (getAssociatedTokenAddress spl mint owner) = None)
      [(publicKey (user (sol info)), MINT_SOL), (publicKey (user (sol info)), MINT_USDC),
       (publicKey (collector (sol info)), MINT_SOL),
       (publicKey (collector (sol info)), MINT_USDC)] = missing \<and> missing \<noteq> [] \<and>
    tx = \<lparr>feePayer = publicKey (user (sol info)),
          instructions =
            map (\<lambda>(owner, mint).
                   CreateAssociatedTokenAccount (publicKey (user (sol info)))
                     (getAssociatedTokenAddress spl mint owner) owner mint) missing\<rparr>"
  then show "accountsCreate spl info =
        ([SendTransaction tx [User],
          ConsoleLog [Text ''send transaction: '', Text (sendTransaction (connection info) tx [User])],
          ConfirmTransaction (sendTransaction (connection info) tx [User]),
          ConsoleLog [Text ''transaction confirmed: '',
                      Text (sendTransaction (connection info) tx [User])]],
         info)"
    unfolding accountsCreate_def createMissing_eq by (simp del: filter.simps add: Let_def)
qed

theorem accountsCreate_missing_witness:
  "accountsCreate lookup_spl
     (created_info [sample_ata MINT_SOL ''Alice'', sample_ata MINT_USDC ''Alice'',
                    sample_ata MINT_SOL ''Bob'', sample_ata MINT_USDC ''Bob'']) =
     ([ConsoleLog [Text ''Noting to create'']],
      created_info [sample_ata MINT_SOL ''Alice'', sample_ata MINT_USDC ''Alice'',
                    sample_ata MINT_SOL ''Bob'', sample_ata MINT_USDC ''Bob'']) \<and>
   accountsCreate lookup_spl
     (created_info [sample_ata MINT_SOL ''Alice'', sample_ata MINT_USDC ''Bob'']) =
     ([SendTransaction
         \<lparr>feePayer = ''Alice'',
          instructions =
            [CreateAssociatedTokenAccount ''Alice'' (sample_ata MINT_USDC ''Alice'') ''Alice''
               MINT_USDC,
             CreateAssociatedTokenAccount ''Alice'' (sample_ata MINT_SOL ''Bob'') ''Bob''
               MINT_SOL]\<rparr>
         [User],
       ConsoleLog [Text ''send transaction: '', Text ''txid''],
       ConfirmTransaction ''txid'',
       ConsoleLog [Text ''transaction confirmed: '', Text ''txid'']],
      created_info [sample_ata MINT_SOL ''Alice'', sample_ata MINT_USDC ''Bob''])"
proof -
  let ?all = "created_info [sample_ata MINT_SOL ''Alice'', sample_ata MINT_USDC ''Alice'',
                    sample_ata MINT_SOL ''Bob'', sample_ata MINT_USDC ''Bob'']"
  let ?two = "created_info [sample_ata MINT_SOL ''Alice'', sample_ata MINT_USDC ''Bob'']"
  let ?tx = "\<lparr>feePayer = ''Alice'',
          instructions =
            [CreateAssociatedTokenAccount ''Alice'' (sample_ata MINT_USDC ''Alice'') ''Alice''
               MINT_USDC,
             CreateAssociatedTokenAccount ''Alice'' (sample_ata MINT_SOL ''Bob'') ''Bob''
               MINT_SOL]\<rparr>"
  have a: "filter (\<lambda>(owner, mint).
        getAccountInfo (connection ?all) (getAssociatedTokenAddress lookup_spl mint owner) = None)
      [(publicKey (user (sol ?all)), MINT_SOL), (publicKey (user (sol ?all)), MINT_USDC),
       (publicKey (collector (sol ?all)), MINT_SOL),
       (publicKey (collector (sol ?all)), MINT_USDC)] = []"
    by (simp add: created_info_simps lookup_spl_ata)
  have b: "filter (\<lambda>(owner, mint).
        getAccountInfo (connection ?two) (getAssociatedTokenAddress lookup_spl mint owner) = None)
      [(publicKey (user (sol ?two)), MINT_SOL), (publicKey (user (sol ?two)), MINT_USDC),
       (publicKey (collector (sol ?two)), MINT_SOL),
       (publicKey (collector (sol ?two)), MINT_USDC)] = [(''Alice'', MINT_USDC), (''Bob'', MINT_SOL)]"
    by (simp add: created_info_simps lookup_spl_ata sample_ata_def MINT_SOL_def MINT_USDC_def)
  have t: "?tx = \<lparr>feePayer = publicKey (user (sol ?two)),
          instructions =
            map (\<lambda>(owner, mint).
                   CreateAssociatedTokenAccount (publicKey (user (sol ?two)))
                     (getAssociatedTokenAddress lookup_spl mint owner) owner mint)
              [(''Alice'', MINT_USDC), (''Bob'', MINT_SOL)]\<rparr>"
    by (simp add: created_info_simps lookup_spl_ata)
  from accountsCreate_missing [of ?all lookup_spl] a
  have A: "accountsCreate lookup_spl ?all = ([ConsoleLog [Text ''Noting to create'']], ?all)"
    by blast
  from accountsCreate_missing [of ?two lookup_spl "[(''Alice'', MINT_USDC), (''Bob'', MINT_SOL)]" ?tx]
    b t
  have B: "accountsCreate lookup_spl ?two =
     ([SendTransaction ?tx [User],
       ConsoleLog [Text ''send transaction: '', Text ''txid''],
       ConfirmTransaction ''txid'',
       ConsoleLog [Text ''transaction confirmed: '', Text ''txid'']],
      ?two)"
    by (simp add: created_info_simps)
  from A B show ?thesis by simp
qed

end
